theory Spec2Isabelle
  imports Complex_Main
begin

section \<open>Python values\<close>

text \<open>
  The exceptions that the program can meet.  \<open>AttributeError\<close> is what \<open>.strip()\<close>
  raises on a cell that is not a string, \<open>OSError\<close> a failed local file write,
  \<open>WebDriverException\<close> a failure of the browser driver, \<open>ValueError\<close> what the
  similarity routine raises on images it rejects.
\<close>

datatype error = AttributeError | OSError | WebDriverException | ValueError

text \<open>
  A spreadsheet cell as \<open>get_all_records\<close> hands it to pandas: a string, a number
  (numeric-looking cells arrive as numbers), or \<open>None\<close>.  A float is modelled by the real
  number it denotes.
\<close>

datatype cell = Text string | Number real | Absent

definition isspace :: "char \<Rightarrow> bool" where
  "isspace c = (of_char c \<in> {9, 10, 11, 12, 13, 28, 29, 30, 31, 32, 133, 160 :: nat})"

definition strip :: "string \<Rightarrow> string" where
  "strip s = rev (dropWhile isspace (rev (dropWhile isspace s)))"

definition cell_strip :: "cell \<Rightarrow> error + string" where
  "cell_strip c = (case c of Text s \<Rightarrow> Inr (strip s) | Number x \<Rightarrow> Inl AttributeError
                   | Absent \<Rightarrow> Inl AttributeError)"

fun str_nat :: "nat \<Rightarrow> string" where
  "str_nat n = (if n < 10 then [char_of (48 + n)]
                else str_nat (n div 10) @ [char_of (48 + n mod 10)])"

declare str_nat.simps [simp del]

definition rint :: "real \<Rightarrow> int" where
  "rint x = (let f = \<lfloor>x\<rfloor>; d = x - of_int f
             in if d < 1 / 2 then f else if 1 / 2 < d then f + 1
                else if even f then f else f + 1)"

text \<open>
  \<open>round(x, ndigits)\<close> on a \<open>numpy.float64\<close>: the value is multiplied by
  \<open>10 ** ndigits\<close>, rounded to the nearest integer with ties to even, and divided by
  \<open>10 ** ndigits\<close>.  The product and the quotient are float64 operations: each result
  is rounded to a float64, by \<open>fl\<close>, which is a parameter.
\<close>

definition np_round :: "(real \<Rightarrow> real) \<Rightarrow> real \<Rightarrow> nat \<Rightarrow> real" where
  "np_round fl x ndigits = fl (of_int (rint (fl (x * 10 ^ ndigits))) / 10 ^ ndigits)"

section \<open>The table\<close>

record dataframe =
  columns :: "string list"
  cells :: "cell list list"

definition add_column :: "string \<Rightarrow> dataframe \<Rightarrow> dataframe" where
  "add_column col df =
     df\<lparr>columns := columns df @ [col], cells := map (\<lambda>r. r @ [Absent]) (cells df)\<rparr>"

definition ensure_column :: "string \<Rightarrow> dataframe \<Rightarrow> dataframe" where
  "ensure_column col df = (if col \<in> set (columns df) then df else add_column col df)"

definition row_get :: "string list \<Rightarrow> cell list \<Rightarrow> string \<Rightarrow> cell \<Rightarrow> cell" where
  "row_get cols row name dflt = (case map_of (zip cols row) name of None \<Rightarrow> dflt | Some v \<Rightarrow> v)"

fun index_of :: "string \<Rightarrow> string list \<Rightarrow> nat option" where
  "index_of c [] = None"
| "index_of c (x # xs) = (if x = c then Some 0 else map_option Suc (index_of c xs))"

definition set_cell :: "string list \<Rightarrow> cell list \<Rightarrow> string \<Rightarrow> cell \<Rightarrow> cell list" where
  "set_cell cols row col v = (case index_of col cols of None \<Rightarrow> row | Some k \<Rightarrow> row[k := v])"

definition df_at :: "dataframe \<Rightarrow> nat \<Rightarrow> string \<Rightarrow> cell \<Rightarrow> dataframe" where
  "df_at df index col v =
     df\<lparr>cells := (cells df)[index := set_cell (columns df) (cells df ! index) col v]\<rparr>"

section \<open>The world outside the program\<close>

datatype event =
    FileWrite string
  | HttpGet string
  | ChromeStart nat nat
  | DriverGet string
  | ExecuteScript string
  | SetWindowSize nat nat
  | SaveScreenshot string
  | DriverQuit
  | WorksheetUpdate
  | ToExcel string

record world =
  files :: "string \<rightharpoonup> string"
  browsers :: nat
  trace :: "event list"
  worksheet :: "cell list list option"
  excel :: "(string \<times> dataframe) option"

definition log :: "event \<Rightarrow> world \<Rightarrow> world" where
  "log e w = w\<lparr>trace := trace w @ [e]\<rparr>"

definition write_file :: "string \<Rightarrow> string \<Rightarrow> world \<Rightarrow> world" where
  "write_file path content w = log (FileWrite path) (w\<lparr>files := (files w)(path \<mapsto> content)\<rparr>)"

text \<open>
  \<open>trace\<close> lists the calls the program makes on the outside world, in order, and
  \<open>browsers\<close> counts the browsers that are open.  \<open>DriverGet\<close> carries the file the
  page is loaded from; the program hands it to the driver as \<open>file:///\<close> followed by its
  absolute path.  A write that fails is taken to leave
  the files as they were.
\<close>

text \<open>What one \<open>requests.get\<close> does: it raises, or it returns a status code and a body.\<close>

datatype fetch = RequestException | Response nat string

datatype shot = ShotRaises | ShotNotWritten | ShotWritten string

text \<open>
  What one browser session does at each call the program makes on it: whether the driver
  starts, whether \<open>get\<close> and the two scripts succeed (\<open>scroll_height\<close> is the value of
  \<open>document.body.scrollHeight\<close>, \<open>None\<close> when the script raises), whether the window
  can be resized, what \<open>save_screenshot\<close> does, and whether \<open>quit\<close> returns.
\<close>

record session =
  start_ok :: bool
  get_ok :: bool
  hide_ok :: bool
  scroll_height :: "nat option"
  resize_ok :: bool
  screenshot :: shot
  quit_ok :: bool

text \<open>
  Every external call of the loop body is made at most once per row, so the outcomes of
  a row's calls are given per row: the two writes of \<open>save_code_to_file\<close>, the two
  downloads with the write of each downloaded file, and the two browser sessions.
\<close>

record row_env =
  page_write_ok :: bool
  style_write_ok :: bool
  desktop_reply :: fetch
  desktop_disk_ok :: bool
  mobile_reply :: fetch
  mobile_disk_ok :: bool
  desktop_session :: session
  mobile_session :: session

record env =
  row_envs :: "nat \<Rightarrow> row_env"
  update_ok :: bool
  to_excel_ok :: bool

section \<open>The imaging libraries\<close>

text \<open>
  OpenCV and scikit-image are not part of the repository.  An image is its dimensions and
  its pixels; what the libraries compute from pixels is a parameter (\<open>cvlib\<close>): decoding
  a file, the interpolation of \<open>cv2.resize\<close>, the luminance of \<open>cv2.cvtColor\<close>, the
  numeric kernel of \<open>structural_similarity\<close>, and \<open>fl\<close>, the rounding of a real to the
  nearest float64.  What they do with dimensions is written
  out: \<open>cv2.resize\<close> returns an image of the size asked for, \<open>cvtColor\<close> keeps the size,
  and \<open>structural_similarity\<close> raises \<open>ValueError\<close> when the shapes differ or when a
  side is smaller than its default window of 7.
\<close>

type_synonym pixel = "nat \<times> nat \<times> nat"

record image =
  height :: nat
  width :: nat
  bgr :: "pixel list"

record gray_image =
  rows :: nat
  cols :: nat
  lum :: "nat list"

record cvlib =
  decode :: "string \<Rightarrow> image option"
  interp :: "image \<Rightarrow> nat \<Rightarrow> nat \<Rightarrow> pixel list"
  luma :: "pixel \<Rightarrow> nat"
  ssim_kernel :: "gray_image \<Rightarrow> gray_image \<Rightarrow> real"
  fl :: "real \<Rightarrow> real"

definition imread :: "cvlib \<Rightarrow> (string \<rightharpoonup> string) \<Rightarrow> string \<Rightarrow> image option" where
  "imread L fs path = (case fs path of None \<Rightarrow> None | Some bytes \<Rightarrow> decode L bytes)"

definition resize :: "cvlib \<Rightarrow> image \<Rightarrow> nat \<times> nat \<Rightarrow> image" where
  "resize L img dsize =
     (case dsize of (w, h) \<Rightarrow> \<lparr>height = h, width = w, bgr = interp L img w h\<rparr>)"

definition cvtColor_BGR2GRAY :: "cvlib \<Rightarrow> image \<Rightarrow> gray_image" where
  "cvtColor_BGR2GRAY L img =
     \<lparr>rows = height img, cols = width img, lum = map (luma L) (bgr img)\<rparr>"

definition structural_similarity :: "cvlib \<Rightarrow> gray_image \<Rightarrow> gray_image \<Rightarrow> error + real" where
  "structural_similarity L im1 im2 =
     (if (rows im1, cols im1) \<noteq> (rows im2, cols im2) then Inl ValueError
      else if rows im1 < 7 \<or> cols im1 < 7 then Inl ValueError
      else Inr (ssim_kernel L im1 im2))"

section \<open>The program\<close>

definition TEMP_DIR :: string where
  "TEMP_DIR = ''./temp_files''"

definition path_join :: "string \<Rightarrow> string \<Rightarrow> string" where
  "path_join dir name = dir @ ''/'' @ name"

definition html_path :: "nat \<Rightarrow> string" where
  "html_path file_index = path_join TEMP_DIR (''page_'' @ str_nat file_index @ ''.html'')"

definition css_path :: "nat \<Rightarrow> string" where
  "css_path file_index = path_join TEMP_DIR (''style_'' @ str_nat file_index @ ''.css'')"

definition desktop_screenshot :: "nat \<Rightarrow> string" where
  "desktop_screenshot index = path_join TEMP_DIR (''desktop_'' @ str_nat index @ ''.png'')"

definition mobile_screenshot :: "nat \<Rightarrow> string" where
  "mobile_screenshot index = path_join TEMP_DIR (''mobile_'' @ str_nat index @ ''.png'')"

definition desktop_ref_image_path :: "nat \<Rightarrow> string" where
  "desktop_ref_image_path index =
     path_join TEMP_DIR (''desktop_ref_'' @ str_nat index @ ''.png'')"

definition mobile_ref_image_path :: "nat \<Rightarrow> string" where
  "mobile_ref_image_path index =
     path_join TEMP_DIR (''mobile_ref_'' @ str_nat index @ ''.png'')"

definition html_document :: "string \<Rightarrow> nat \<Rightarrow> string" where
  "html_document html_code file_index =
     (let nl = [char_of (10 :: nat)]; q = [char_of (34 :: nat)];
          i8 = replicate 8 (CHR '' ''); i12 = replicate 12 (CHR '' '')
      in concat
        [nl,
         i8, ''<!DOCTYPE html>'', nl,
         i8, ''<html lang='', q, ''en'', q, ''>'', nl,
         i8, ''<head>'', nl,
         i12, ''<meta charset='', q, ''UTF-8'', q, ''>'', nl,
         i12, ''<meta name='', q, ''viewport'', q, '' content='', q,
              ''width=device-width, initial-scale=1.0'', q, ''>'', nl,
         i12, ''<title>Test Page</title>'', nl,
         i12, ''<link rel='', q, ''stylesheet'', q, '' href='', q,
              ''style_'', str_nat file_index, ''.css'', q, ''>'', nl,
         i8, ''</head>'', nl,
         i8, ''<body>'', nl,
         i8, html_code, nl,
         i8, ''</body>'', nl,
         i8, ''</html>'', nl,
         i8])"

definition save_code_to_file ::
    "row_env \<Rightarrow> string \<Rightarrow> string \<Rightarrow> nat \<Rightarrow> world \<Rightarrow> error + (string \<times> string) \<times> world" where
  "save_code_to_file E html_code css_code file_index w =
     (if \<not> page_write_ok E then Inl OSError
      else
        let w1 = write_file (html_path file_index) (html_document html_code file_index) w
        in if \<not> style_write_ok E then Inl OSError
           else Inr ((html_path file_index, css_path file_index),
                     write_file (css_path file_index) css_code w1))"

text \<open>
  The \<open>try\<close> block of \<open>capture_screenshot_from_file\<close>: each call on the driver may
  raise, and the first that does ends the block (the \<open>except\<close> clause only prints).
\<close>

definition capture_try :: "session \<Rightarrow> string \<Rightarrow> string \<Rightarrow> nat \<Rightarrow> world \<Rightarrow> world" where
  "capture_try s html_file output_file vw w =
     (let w1 = log (DriverGet html_file) w
      in if \<not> get_ok s then w1
         else
           let w2 = log (ExecuteScript ''document.body.style.overflow = 'hidden';'') w1
           in if \<not> hide_ok s then w2
              else
                let w3 = log (ExecuteScript ''return document.body.scrollHeight'') w2
                in case scroll_height s of
                     None \<Rightarrow> w3
                   | Some total_height \<Rightarrow>
                       let w4 = log (SetWindowSize vw total_height) w3
                       in if \<not> resize_ok s then w4
                          else
                            let w5 = log (SaveScreenshot output_file) w4
                            in case screenshot s of
                                 ShotRaises \<Rightarrow> w5
                               | ShotNotWritten \<Rightarrow> w5
                               | ShotWritten png \<Rightarrow>
                                   w5\<lparr>files := (files w5)(output_file \<mapsto> png)\<rparr>)"

definition capture_screenshot_from_file ::
    "session \<Rightarrow> string \<Rightarrow> string \<Rightarrow> nat \<times> nat \<Rightarrow> world \<Rightarrow> (error + unit) \<times> world" where
  "capture_screenshot_from_file s html_file output_file viewport_size w =
     (case viewport_size of (vw, vh) \<Rightarrow>
        let w0 = log (ChromeStart vw vh) w
        in if \<not> start_ok s then (Inl WebDriverException, w0)
           else
             let w1 = capture_try s html_file output_file vw (w0\<lparr>browsers := browsers w0 + 1\<rparr>);
                 w2 = log DriverQuit (w1\<lparr>browsers := browsers w1 - 1\<rparr>)
             in (if quit_ok s then Inr () else Inl WebDriverException, w2))"

definition pixel_match ::
    "cvlib \<Rightarrow> (string \<rightharpoonup> string) \<Rightarrow> string \<Rightarrow> string \<Rightarrow> error + real" where
  "pixel_match L fs reference_path test_path =
     (case imread L fs reference_path of
        None \<Rightarrow> Inr 0
      | Some ref_image \<Rightarrow>
          (case imread L fs test_path of
             None \<Rightarrow> Inr 0
           | Some test_image \<Rightarrow>
               let resized = resize L test_image (width ref_image, height ref_image);
                   ref_gray = cvtColor_BGR2GRAY L ref_image;
                   test_gray = cvtColor_BGR2GRAY L resized
               in case structural_similarity L ref_gray test_gray of
                    Inl e \<Rightarrow> Inl e
                  | Inr similarity_index \<Rightarrow> Inr (np_round (fl L) (fl L (similarity_index * 100)) 2)))"

definition download_image ::
    "fetch \<Rightarrow> bool \<Rightarrow> string \<Rightarrow> string \<Rightarrow> world \<Rightarrow> bool \<times> world" where
  "download_image reply disk_ok url output_path w =
     (let w1 = log (HttpGet url) w
      in case reply of
           RequestException \<Rightarrow> (False, w1)
         | Response status_code content \<Rightarrow>
             if status_code = 200 then
               (if disk_ok then (True, write_file output_path content w1)
                else (False, log (FileWrite output_path) w1))
             else (False, w1))"

text \<open>
  The \<open>try\<close> block of the loop body.  An exception inside it is caught and printed, and
  the row's two cells are assigned only at its end; \<open>continue\<close> leaves the row as it is.
\<close>

definition row_try ::
    "cvlib \<Rightarrow> row_env \<Rightarrow> nat \<Rightarrow> string \<Rightarrow> string \<Rightarrow> string \<Rightarrow> world \<times> dataframe
       \<Rightarrow> world \<times> dataframe" where
  "row_try L E index html_file desktop_ref_image_url mobile_ref_image_url s =
     (case s of (w, df) \<Rightarrow>
        case download_image (desktop_reply E) (desktop_disk_ok E)
               desktop_ref_image_url (desktop_ref_image_path index) w of
          (False, w1) \<Rightarrow> (w1, df)
        | (True, w1) \<Rightarrow>
            (case download_image (mobile_reply E) (mobile_disk_ok E)
                    mobile_ref_image_url (mobile_ref_image_path index) w1 of
               (False, w2) \<Rightarrow> (w2, df)
             | (True, w2) \<Rightarrow>
                 (case capture_screenshot_from_file (desktop_session E)
                         html_file (desktop_screenshot index) (1920, 1080) w2 of
                    (Inl e, w3) \<Rightarrow> (w3, df)
                  | (Inr u, w3) \<Rightarrow>
                      (case capture_screenshot_from_file (mobile_session E)
                              html_file (mobile_screenshot index) (420, 812) w3 of
                         (Inl e, w4) \<Rightarrow> (w4, df)
                       | (Inr u', w4) \<Rightarrow>
                           (case pixel_match L (files w4)
                                   (desktop_ref_image_path index) (desktop_screenshot index) of
                              Inl e \<Rightarrow> (w4, df)
                            | Inr desktop_match \<Rightarrow>
                                (case pixel_match L (files w4)
                                        (mobile_ref_image_path index) (mobile_screenshot index) of
                                   Inl e \<Rightarrow> (w4, df)
                                 | Inr mobile_match \<Rightarrow>
                                     (w4, df_at
                                            (df_at df index ''Desktop Match %''
                                               (Number desktop_match))
                                            index ''Mobile Match %''
                                            (Number mobile_match))))))))"

text \<open>
  One iteration of \<open>for index, row in df.iterrows()\<close>.  The four \<open>.strip()\<close> calls and
  \<open>save_code_to_file\<close> stand outside the \<open>try\<close>: what they raise leaves the loop.
\<close>

definition get_strip :: "dataframe \<Rightarrow> nat \<Rightarrow> string \<Rightarrow> error + string" where
  "get_strip df index name =
     cell_strip (row_get (columns df) (cells df ! index) name (Text ''''))"

definition process_row ::
    "cvlib \<Rightarrow> row_env \<Rightarrow> nat \<Rightarrow> world \<times> dataframe \<Rightarrow> error + world \<times> dataframe" where
  "process_row L E index s =
     (case s of (w, df) \<Rightarrow>
        case get_strip df index ''HTML Code'' of
             Inl e \<Rightarrow> Inl e
           | Inr html_code \<Rightarrow>
        (case get_strip df index ''CSS Code'' of
             Inl e \<Rightarrow> Inl e
           | Inr css_code \<Rightarrow>
        (case get_strip df index ''Desktop Reference Image'' of
             Inl e \<Rightarrow> Inl e
           | Inr desktop_ref_image_url \<Rightarrow>
        (case get_strip df index ''Mobile Reference Image'' of
             Inl e \<Rightarrow> Inl e
           | Inr mobile_ref_image_url \<Rightarrow>
               if html_code = [] \<or> css_code = [] then Inr (w, df)
               else if desktop_ref_image_url = [] \<or> mobile_ref_image_url = [] then Inr (w, df)
               else
                 (case save_code_to_file E html_code css_code index w of
                    Inl e \<Rightarrow> Inl e
                  | Inr ((html_file, css_file), w1) \<Rightarrow>
                      Inr (row_try L E index html_file
                             desktop_ref_image_url mobile_ref_image_url (w1, df)))))))"

fun iterrows ::
    "cvlib \<Rightarrow> (nat \<Rightarrow> row_env) \<Rightarrow> nat list \<Rightarrow> world \<times> dataframe \<Rightarrow> error + world \<times> dataframe" where
  "iterrows L E [] s = Inr s"
| "iterrows L E (index # rest) s =
     (case process_row L (E index) index s of
        Inl e \<Rightarrow> Inl e
      | Inr s' \<Rightarrow> iterrows L E rest s')"

text \<open>
  The loop \<open>for col in [...]: if col not in df.columns: df[col] = None\<close>.
\<close>

definition match_columns :: "dataframe \<Rightarrow> dataframe" where
  "match_columns df0 =
     foldl (\<lambda>df col. ensure_column col df) df0 [''Desktop Match %'', ''Mobile Match %'']"

text \<open>
  \<open>process_google_sheet\<close> from the point where \<open>df = pd.DataFrame(data)\<close> has been
  built: the two columns are added where missing, the rows are processed, the sheet is
  updated inside a \<open>try\<close> whose \<open>except\<close> only prints, and the table is exported.
\<close>

definition process_google_sheet ::
    "cvlib \<Rightarrow> env \<Rightarrow> string \<Rightarrow> dataframe \<Rightarrow> world \<Rightarrow> error + world \<times> dataframe" where
  "process_google_sheet L E local_excel_path df0 w =
     (let df = match_columns df0
      in case iterrows L (row_envs E) [0 ..< length (cells df)] (w, df) of
           Inl e \<Rightarrow> Inl e
         | Inr (w1, df1) \<Rightarrow>
             let w2 = log WorksheetUpdate w1;
                 w3 = (if update_ok E
                       then w2\<lparr>worksheet := Some (map Text (columns df1) # cells df1)\<rparr>
                       else w2);
                 w4 = log (ToExcel local_excel_path) w3
             in if to_excel_ok E
                then Inr (w4\<lparr>excel := Some (local_excel_path, df1)\<rparr>, df1)
                else Inl OSError)"

text \<open>What the page shows after the button: \<open>st.success\<close> or \<open>st.error\<close>.\<close>

datatype ui = Success | MissingInput | ErrorOccurred error

definition process_sheet_button ::
    "cvlib \<Rightarrow> env \<Rightarrow> string \<Rightarrow> string \<Rightarrow> dataframe \<Rightarrow> world \<Rightarrow> ui" where
  "process_sheet_button L E sheet_url local_excel_path df0 w =
     (if sheet_url = [] then MissingInput
      else case process_google_sheet L E local_excel_path df0 w of
             Inl e \<Rightarrow> ErrorOccurred e
           | Inr r \<Rightarrow> Success)"

section \<open>Notions used in the statements\<close>



text \<open>
  What \<open>download_image\<close> returns: the reply has status 200 and the file was written.
\<close>

definition fetched :: "fetch \<Rightarrow> bool \<Rightarrow> bool" where
  "fetched reply disk_ok =
     (case reply of RequestException \<Rightarrow> False | Response status_code content \<Rightarrow> status_code = 200 \<and> disk_ok)"

text \<open>
  A fetch that fails on the network side: \<open>requests.get\<close> raises, or the status is
  not 200.
\<close>

definition net_fail :: "fetch \<Rightarrow> bool" where
  "net_fail reply =
     (case reply of RequestException \<Rightarrow> True | Response status_code content \<Rightarrow> status_code \<noteq> 200)"

text \<open>
  The row passes every check before the two calls of \<open>pixel_match\<close>: its four cells
  are non-empty strings, its page files are written, both downloads succeed, and both
  renderer calls return.
\<close>

definition reaches_scoring :: "row_env \<Rightarrow> dataframe \<Rightarrow> nat \<Rightarrow> bool" where
  "reaches_scoring E df i =
     (case get_strip df i ''HTML Code'' of Inl e \<Rightarrow> False | Inr html_code \<Rightarrow>
      case get_strip df i ''CSS Code'' of Inl e \<Rightarrow> False | Inr css_code \<Rightarrow>
      case get_strip df i ''Desktop Reference Image'' of Inl e \<Rightarrow> False | Inr desktop_url \<Rightarrow>
      case get_strip df i ''Mobile Reference Image'' of Inl e \<Rightarrow> False | Inr mobile_url \<Rightarrow>
        html_code \<noteq> [] \<and> css_code \<noteq> [] \<and> desktop_url \<noteq> [] \<and> mobile_url \<noteq> [] \<and>
        page_write_ok E \<and> style_write_ok E \<and>
        fetched (desktop_reply E) (desktop_disk_ok E) \<and>
        fetched (mobile_reply E) (mobile_disk_ok E) \<and>
        start_ok (desktop_session E) \<and> quit_ok (desktop_session E) \<and>
        start_ok (mobile_session E) \<and> quit_ok (mobile_session E))"

text \<open>
  The window sizes the browsers of a trace were started with.
\<close>

fun start_size :: "event \<Rightarrow> (nat \<times> nat) list" where
  "start_size (ChromeStart vw vh) = [(vw, vh)]"
| "start_size e = []"

definition viewports :: "event list \<Rightarrow> (nat \<times> nat) list" where
  "viewports tr = concat (map start_size tr)"

text \<open>
  The rows of the table a run returns, when it returns.
\<close>

definition result_cells :: "error + world \<times> dataframe \<Rightarrow> cell list list option" where
  "result_cells r = (case r of Inl e \<Rightarrow> None | Inr (w, df) \<Rightarrow> Some (cells df))"

section \<open>Concrete inputs\<close>

text \<open>
  A stand-in for the imaging libraries, to run the program on concrete files: a file of
  \<open>n\<close> bytes decodes to an \<open>n \<times> n\<close> image of one colour (an empty file does not
  decode), interpolation repeats the first pixel, the luminance is the mean of the three
  channels, the kernel gives 1 on equal luminance planes and 1/2 otherwise, and every
  real counts as a float64.
\<close>

definition stub_lib :: cvlib where
  "stub_lib =
     \<lparr>decode = (\<lambda>bytes. case bytes of
                  [] \<Rightarrow> None
                | c # cs \<Rightarrow>
                    Some \<lparr>height = length bytes, width = length bytes,
                          bgr = replicate (length bytes * length bytes)
                                  (of_char c, of_char c, of_char c)\<rparr>),
      interp = (\<lambda>img w h. replicate (w * h) (case bgr img of [] \<Rightarrow> (0, 0, 0) | p # ps \<Rightarrow> p)),
      luma = (\<lambda>p. case p of (b, g, r) \<Rightarrow> (b + g + r) div 3),
      ssim_kernel = (\<lambda>a b. if lum a = lum b then 1 else 1 / 2),
      fl = (\<lambda>x. x)\<rparr>"

definition good_session :: session where
  "good_session =
     \<lparr>start_ok = True, get_ok = True, hide_ok = True, scroll_height = Some 34,
      resize_ok = True, screenshot = ShotWritten ''abcdefgh'', quit_ok = True\<rparr>"

definition good_row :: row_env where
  "good_row =
     \<lparr>page_write_ok = True, style_write_ok = True,
      desktop_reply = Response 200 ''abcdefgh'', desktop_disk_ok = True,
      mobile_reply = Response 200 ''abcdefgh'', mobile_disk_ok = True,
      desktop_session = good_session, mobile_session = good_session\<rparr>"

definition good_env :: env where
  "good_env = \<lparr>row_envs = (\<lambda>i. good_row), update_ok = True, to_excel_ok = True\<rparr>"

definition empty_world :: world where
  "empty_world =
     \<lparr>files = Map.empty, browsers = 0, trace = [], worksheet = None, excel = None\<rparr>"

definition input_columns :: "string list" where
  "input_columns =
     [''HTML Code'', ''CSS Code'', ''Desktop Reference Image'', ''Mobile Reference Image'']"

definition hello_row :: "cell list" where
  "hello_row =
     [Text ''<div>Hello</div>'', Text ''div{color:red}'',
      Text ''http://refs/desktop.png'', Text ''http://refs/mobile.png'']"

definition hello_table :: dataframe where
  "hello_table = \<lparr>columns = input_columns, cells = [hello_row]\<rparr>"

definition two_files :: "string \<rightharpoonup> string" where
  "two_files = [''ref.png'' \<mapsto> ''abcdefgh'', ''shot.png'' \<mapsto> ''xyz'']"

definition flat_image :: image where
  "flat_image = \<lparr>height = 8, width = 8, bgr = replicate 64 (97, 97, 97)\<rparr>"

definition copy_files :: "string \<rightharpoonup> string" where
  "copy_files = [''ref.png'' \<mapsto> ''abcdefgh'', ''copy.png'' \<mapsto> ''abcdefgh'']"

definition small_files :: "string \<rightharpoonup> string" where
  "small_files = [''ref.png'' \<mapsto> ''xy'', ''shot.png'' \<mapsto> ''abcdefgh'']"

definition tiny_files :: "string \<rightharpoonup> string" where
  "tiny_files = [''tiny.png'' \<mapsto> ''x'']"

definition tall_session :: session where
  "tall_session = good_session\<lparr>scroll_height := Some 2400\<rparr>"

definition flaky_env :: env where
  "flaky_env =
     \<lparr>row_envs = (\<lambda>i. good_row\<lparr>desktop_session := good_session\<lparr>get_ok := False\<rparr>\<rparr>),
      update_ok = True, to_excel_ok = True\<rparr>"

definition mobile_404_env :: env where
  "mobile_404_env =
     \<lparr>row_envs = (\<lambda>i. good_row\<lparr>mobile_reply := Response 404 ''''\<rparr>),
      update_ok = True, to_excel_ok = True\<rparr>"

definition sink_fail_env :: env where
  "sink_fail_env = \<lparr>row_envs = (\<lambda>i. good_row), update_ok = False, to_excel_ok = True\<rparr>"

definition export_fail_env :: env where
  "export_fail_env = \<lparr>row_envs = (\<lambda>i. good_row), update_ok = True, to_excel_ok = False\<rparr>"

definition blank_row :: "cell list" where
  "blank_row =
     [Text ''   '', Text ''div{color:red}'',
      Text ''http://refs/desktop.png'', Text ''http://refs/mobile.png'']"

definition blank_table :: dataframe where
  "blank_table = \<lparr>columns = input_columns, cells = [blank_row]\<rparr>"

definition rerun_table :: dataframe where
  "rerun_table =
     \<lparr>columns = input_columns @ [''Desktop Match %'', ''Mobile Match %''],
      cells = [blank_row @ [Number 88, Number 90]]\<rparr>"

definition numeric_table :: dataframe where
  "numeric_table =
     \<lparr>columns = input_columns,
      cells = [[Text ''<p>1</p>'', Number 123,
                Text ''http://refs/desktop.png'', Text ''http://refs/mobile.png''],
               hello_row]\<rparr>"

section \<open>The similarity scorer\<close>

lemma rint_of_int: "rint (of_int k) = k"
  by (simp add: rint_def Let_def)





text \<open>
  A tie goes to the even neighbour: when the float64 product of the value and 100 is
  1234.5, the result is the float64 of 12.34.  This is the case of the index 0.12345,
  whose percentage 12.345 times 100 is 1234.5 in float64.
\<close>

lemma np_round_tie_to_even:
  assumes "f (x * 10\<^sup>2) = 12345 / 10"
  shows "np_round f x 2 = f (1234 / 100)"
proof -
  have "\<lfloor>12345 / 10 :: real\<rfloor> = 1234"
    by (simp add: floor_eq_iff)
  then have r: "rint (12345 / 10) = 1234"
    by (simp add: rint_def Let_def)
  show ?thesis
    unfolding np_round_def assms r by simp
qed





text \<open>
  Claim C1, as the code has it.  When either file cannot be loaded, \<open>pixel_match\<close>
  returns 0 and raises nothing.  When both load, the candidate is the image that is
  resized, to the reference's width and height, the reference goes on unresized, and
  both are converted to one luminance channel.  If the reference is at least 7 pixels
  wide and high, the value returned is the similarity index of the pair times 100,
  rounded to two digits as numpy rounds a float64.  If a side of the reference is under
  7 pixels, the similarity routine refuses the pair and \<open>pixel_match\<close> raises
  \<open>ValueError\<close>.
\<close>

theorem pixel_match_contract:
  "(imread L fs rp = None \<or> imread L fs tp = None \<longrightarrow> pixel_match L fs rp tp = Inr 0) \<and>
   (\<forall>r t. imread L fs rp = Some r \<and> imread L fs tp = Some t \<longrightarrow>
      height (resize L t (width r, height r)) = height r \<and>
      width (resize L t (width r, height r)) = width r \<and>
      (7 \<le> height r \<and> 7 \<le> width r \<longrightarrow>
         pixel_match L fs rp tp =
           Inr (np_round (fl L)
                  (fl L (ssim_kernel L (cvtColor_BGR2GRAY L r)
                           (cvtColor_BGR2GRAY L (resize L t (width r, height r))) * 100)) 2)) \<and>
      (height r < 7 \<or> width r < 7 \<longrightarrow> pixel_match L fs rp tp = Inl ValueError))"
  by (auto simp: pixel_match_def resize_def Let_def structural_similarity_def
        cvtColor_BGR2GRAY_def split: option.splits)

text \<open>
  Claim C6, as the code has it.  The value of \<open>pixel_match\<close> depends on the two
  decoded images only: two calls that load the same reference and the same candidate,
  from whatever files and paths, return the same value.  A readable image whose sides
  are at least 7 pixels, compared with an exact copy of itself, gives exactly 100,
  provided the library returns the pixels unchanged when it resizes an image to its own
  size, its similarity kernel gives 1 on two identical planes, and 100 and 10000 are
  float64 numbers.  A readable image with a side under 7 pixels, compared with an exact
  copy of itself, makes \<open>pixel_match\<close> raise \<open>ValueError\<close>.
\<close>

theorem pixel_match_pure:
  "(imread L fs1 r1 = imread L fs2 r2 \<and> imread L fs1 t1 = imread L fs2 t2 \<longrightarrow>
      pixel_match L fs1 r1 t1 = pixel_match L fs2 r2 t2) \<and>
   (imread L fs rp = Some img \<and> imread L fs tp = Some img \<and>
    7 \<le> height img \<and> 7 \<le> width img \<and>
    interp L img (width img) (height img) = bgr img \<and>
    ssim_kernel L (cvtColor_BGR2GRAY L img) (cvtColor_BGR2GRAY L img) = 1 \<and>
    fl L 100 = 100 \<and> fl L 10000 = 10000 \<longrightarrow>
      pixel_match L fs rp tp = Inr 100) \<and>
   (imread L fs rp = Some img \<and> imread L fs tp = Some img \<and>
    (height img < 7 \<or> width img < 7) \<longrightarrow>
      pixel_match L fs rp tp = Inl ValueError)"
proof (intro conjI impI)
  assume "imread L fs1 r1 = imread L fs2 r2 \<and> imread L fs1 t1 = imread L fs2 t2"
  then have e: "imread L fs1 r1 = imread L fs2 r2" "imread L fs1 t1 = imread L fs2 t2"
    by simp_all
  show "pixel_match L fs1 r1 t1 = pixel_match L fs2 r2 t2"
    unfolding pixel_match_def e by (rule refl)
next
  assume a: "imread L fs rp = Some img \<and> imread L fs tp = Some img \<and>
    7 \<le> height img \<and> 7 \<le> width img \<and>
    interp L img (width img) (height img) = bgr img \<and>
    ssim_kernel L (cvtColor_BGR2GRAY L img) (cvtColor_BGR2GRAY L img) = 1 \<and>
    fl L 100 = 100 \<and> fl L 10000 = 10000"
  then have r: "resize L img (width img, height img) = img"
    by (simp add: resize_def)
  have "np_round (fl L) (fl L (1 * 100)) 2 = 100"
    using a rint_of_int[of 10000] by (simp add: np_round_def)
  with a r show "pixel_match L fs rp tp = Inr 100"
    by (simp add: pixel_match_def Let_def structural_similarity_def cvtColor_BGR2GRAY_def)
next
  assume "imread L fs rp = Some img \<and> imread L fs tp = Some img \<and>
    (height img < 7 \<or> width img < 7)"
  then show "pixel_match L fs rp tp = Inl ValueError"
    by (auto simp: pixel_match_def Let_def structural_similarity_def cvtColor_BGR2GRAY_def
          resize_def)
qed

section \<open>The renderer\<close>

lemma capture_try_browsers: "browsers (capture_try s h out vw w) = browsers w"
  by (simp add: capture_try_def log_def Let_def split: option.splits shot.splits)

lemma capture_try_trace:
  "\<exists>mid. trace (capture_try s h out vw w) = trace w @ mid \<and> DriverQuit \<notin> set mid \<and>
      (\<forall>a b. ChromeStart a b \<notin> set mid)"
  by (simp add: capture_try_def log_def Let_def split: option.splits shot.splits)

lemma capture_returns:
  "start_ok s \<Longrightarrow> quit_ok s \<Longrightarrow> fst (capture_screenshot_from_file s h out vp w) = Inr ()"
  by (simp add: capture_screenshot_from_file_def Let_def split: prod.splits)

lemma capture_raises:
  "\<not> (start_ok s \<and> quit_ok s) \<Longrightarrow>
     fst (capture_screenshot_from_file s h out vp w) = Inl WebDriverException"
  by (auto simp: capture_screenshot_from_file_def Let_def split: prod.splits)





lemma viewports_append: "viewports (a @ b) = viewports a @ viewports b"
  by (simp add: viewports_def)

lemma viewports_Cons: "viewports (e # es) = start_size e @ viewports es"
  by (simp add: viewports_def)

lemma capture_viewports:
  "\<exists>new. trace (snd (capture_screenshot_from_file s h out (vw, vh) w)) = trace w @ new \<and>
         viewports new = [(vw, vh)]"
proof (cases "start_ok s")
  case False
  then show ?thesis
    by (simp add: capture_screenshot_from_file_def log_def Let_def viewports_def)
next
  case True
  then show ?thesis
    by (simp add: capture_screenshot_from_file_def capture_try_def log_def Let_def viewports_def
          split: option.splits shot.splits)
qed

lemma capture_full_trace:
  assumes "start_ok s" "get_ok s" "hide_ok s" "scroll_height s = Some total_height" "resize_ok s"
  shows "trace (snd (capture_screenshot_from_file s h out (vw, vh) w)) =
           trace w @ [ChromeStart vw vh, DriverGet h,
                      ExecuteScript ''document.body.style.overflow = 'hidden';'',
                      ExecuteScript ''return document.body.scrollHeight'',
                      SetWindowSize vw total_height, SaveScreenshot out, DriverQuit]"
  using assms
  by (simp add: capture_screenshot_from_file_def capture_try_def log_def Let_def
        split: shot.splits)

text \<open>
  Claim C7.  Whatever the session does, a call of \<open>capture_screenshot_from_file\<close> leaves
  the number of open browsers as it found it.  When the driver starts, the events of the
  call are the start, the events of the \<open>try\<close> block and, last, exactly one
  \<open>driver.quit()\<close>; when the driver does not start, no browser was acquired and the
  call raises.
\<close>

theorem browser_released:
  "browsers (snd (capture_screenshot_from_file s h out (vw, vh) w)) = browsers w \<and>
   (if start_ok s
    then \<exists>mid. trace (snd (capture_screenshot_from_file s h out (vw, vh) w))
                  = trace w @ [ChromeStart vw vh] @ mid @ [DriverQuit]
               \<and> DriverQuit \<notin> set mid \<and> (\<forall>a b. ChromeStart a b \<notin> set mid)
    else trace (snd (capture_screenshot_from_file s h out (vw, vh) w))
           = trace w @ [ChromeStart vw vh]
         \<and> fst (capture_screenshot_from_file s h out (vw, vh) w) = Inl WebDriverException)"
proof (cases "start_ok s")
  case False
  then show ?thesis
    by (simp add: capture_screenshot_from_file_def log_def Let_def)
next
  case True
  define w0 where "w0 = (log (ChromeStart vw vh) w)\<lparr>browsers := browsers (log (ChromeStart vw vh) w) + 1\<rparr>"
  obtain mid where m: "trace (capture_try s h out vw w0) = trace w0 @ mid"
      "DriverQuit \<notin> set mid" "\<forall>a b. ChromeStart a b \<notin> set mid"
    using capture_try_trace by blast
  show ?thesis
    using True m
    by (simp add: capture_screenshot_from_file_def Let_def capture_try_browsers log_def w0_def)
qed

section \<open>The artifact paths\<close>





section \<open>One row\<close>

lemma download_image_ok:
  "reply = Response 200 c \<Longrightarrow> disk_ok \<Longrightarrow>
     download_image reply disk_ok url path w = (True, write_file path c (log (HttpGet url) w))"
  by (simp add: download_image_def Let_def)

lemma download_image_fetched:
  "fst (download_image reply disk_ok url path w) = fetched reply disk_ok"
  by (simp add: download_image_def fetched_def Let_def split: fetch.splits)

lemma df_at_columns [simp]: "columns (df_at df i c v) = columns df"
  by (simp add: df_at_def)

lemma df_at_length [simp]: "length (cells (df_at df i c v)) = length (cells df)"
  by (simp add: df_at_def)

lemma df_at_other: "j \<noteq> i \<Longrightarrow> cells (df_at df i c v) ! j = cells df ! j"
  by (simp add: df_at_def)



lemma row_try_cases:
  "snd (row_try L E i h du mu (w, df)) = df \<or>
   (\<exists>dm mm. snd (row_try L E i h du mu (w, df)) =
       df_at (df_at df i ''Desktop Match %'' (Number dm)) i ''Mobile Match %'' (Number mm))"
  by (auto simp: row_try_def split: prod.splits bool.splits sum.splits)

lemma row_try_unscored:
  assumes "\<not> (fetched (desktop_reply E) (desktop_disk_ok E) \<and>
              fetched (mobile_reply E) (mobile_disk_ok E) \<and>
              start_ok (desktop_session E) \<and> quit_ok (desktop_session E) \<and>
              start_ok (mobile_session E) \<and> quit_ok (mobile_session E))"
  shows "snd (row_try L E i h du mu (w, df)) = df"
proof -
  have d: "\<And>w. \<not> fetched (desktop_reply E) (desktop_disk_ok E) \<Longrightarrow>
        fst (download_image (desktop_reply E) (desktop_disk_ok E) du (desktop_ref_image_path i) w) = False"
    by (simp add: download_image_fetched)
  have m: "\<And>w. \<not> fetched (mobile_reply E) (mobile_disk_ok E) \<Longrightarrow>
        fst (download_image (mobile_reply E) (mobile_disk_ok E) mu (mobile_ref_image_path i) w) = False"
    by (simp add: download_image_fetched)
  have cd: "\<And>w. \<not> (start_ok (desktop_session E) \<and> quit_ok (desktop_session E)) \<Longrightarrow>
        fst (capture_screenshot_from_file (desktop_session E) h (desktop_screenshot i) (1920, 1080) w)
          = Inl WebDriverException"
    by (rule capture_raises)
  have cm: "\<And>w. \<not> (start_ok (mobile_session E) \<and> quit_ok (mobile_session E)) \<Longrightarrow>
        fst (capture_screenshot_from_file (mobile_session E) h (mobile_screenshot i) (420, 812) w)
          = Inl WebDriverException"
    by (rule capture_raises)
  show ?thesis
    using assms d m cd cm
    by (simp add: row_try_def split: prod.splits bool.splits sum.splits) (metis fst_conv sum.distinct(1))
qed

lemma row_try_viewports:
  assumes "desktop_reply E = Response 200 dc" "desktop_disk_ok E"
      and "mobile_reply E = Response 200 mc" "mobile_disk_ok E"
  shows "viewports (drop (length (trace w)) (trace (fst (row_try L E i h du mu (w, df))))) =
           (if start_ok (desktop_session E) \<and> quit_ok (desktop_session E)
            then [(1920, 1080), (420, 812)] else [(1920, 1080)])"
proof -
  let ?w2 = "write_file (mobile_ref_image_path i) mc (log (HttpGet mu)
               (write_file (desktop_ref_image_path i) dc (log (HttpGet du) w)))"
  have t2: "trace ?w2 = trace w @ [HttpGet du, FileWrite (desktop_ref_image_path i),
                                   HttpGet mu, FileWrite (mobile_ref_image_path i)]"
    by (simp add: write_file_def log_def)
  obtain r3 w3 where c3: "capture_screenshot_from_file (desktop_session E) h
        (desktop_screenshot i) (1920, 1080) ?w2 = (r3, w3)"
    by (cases "capture_screenshot_from_file (desktop_session E) h (desktop_screenshot i) (1920, 1080) ?w2")
  obtain r4 w4 where c4: "capture_screenshot_from_file (mobile_session E) h
        (mobile_screenshot i) (420, 812) w3 = (r4, w4)"
    by (cases "capture_screenshot_from_file (mobile_session E) h (mobile_screenshot i) (420, 812) w3")
  from capture_viewports[of "desktop_session E" h "desktop_screenshot i" 1920 1080 ?w2] c3
  obtain e3 where e3: "trace w3 = trace ?w2 @ e3" "viewports e3 = [(1920, 1080)]" by auto
  from capture_viewports[of "mobile_session E" h "mobile_screenshot i" 420 812 w3] c4
  obtain e4 where e4: "trace w4 = trace w3 @ e4" "viewports e4 = [(420, 812)]" by auto
  have dl: "viewports [HttpGet du, FileWrite (desktop_ref_image_path i),
                       HttpGet mu, FileWrite (mobile_ref_image_path i)] = []"
    by (simp add: viewports_def)
  show ?thesis
  proof (cases "start_ok (desktop_session E) \<and> quit_ok (desktop_session E)")
    case True
    then have "r3 = Inr ()"
      using capture_returns[of "desktop_session E" h "desktop_screenshot i" "(1920, 1080)" ?w2] c3
      by simp
    then have "fst (row_try L E i h du mu (w, df)) = w4"
      using c3 c4
      by (simp add: row_try_def download_image_ok[OF assms(1,2)] download_image_ok[OF assms(3,4)]
            split: sum.splits)
    with True t2 e3 e4 show ?thesis by (simp add: viewports_append viewports_Cons)
  next
    case False
    then have "r3 = Inl WebDriverException"
      using capture_raises[of "desktop_session E" h "desktop_screenshot i" "(1920, 1080)" ?w2] c3
      by simp
    then have "fst (row_try L E i h du mu (w, df)) = w3"
      using c3
      by (simp add: row_try_def download_image_ok[OF assms(1,2)] download_image_ok[OF assms(3,4)])
    with False t2 e3 show ?thesis by (simp add: viewports_append viewports_Cons)
  qed
qed

lemma process_row_cases:
  assumes "process_row L E i (w, df) = Inr (w', df')"
  shows "df' = df \<or>
   (\<exists>dm mm. df' = df_at (df_at df i ''Desktop Match %'' (Number dm)) i ''Mobile Match %'' (Number mm))"
proof -
  from assms have "df' = df \<or> (\<exists>h du mu w1. df' = snd (row_try L E i h du mu (w1, df)))"
    by (auto simp: process_row_def split: sum.splits if_splits prod.splits) (metis snd_conv)+
  then show ?thesis using row_try_cases by metis
qed

lemma process_row_unscored:
  assumes "process_row L E i (w, df) = Inr (w', df')" "\<not> reaches_scoring E df i"
  shows "df' = df"
proof -
  from assms(1) have
    "df' = df \<or> (\<exists>h c du mu hf w1. get_strip df i ''HTML Code'' = Inr h \<and>
        get_strip df i ''CSS Code'' = Inr c \<and> get_strip df i ''Desktop Reference Image'' = Inr du \<and>
        get_strip df i ''Mobile Reference Image'' = Inr mu \<and> h \<noteq> [] \<and> c \<noteq> [] \<and> du \<noteq> [] \<and> mu \<noteq> [] \<and>
        page_write_ok E \<and> style_write_ok E \<and> df' = snd (row_try L E i hf du mu (w1, df)))"
    by (auto simp: process_row_def save_code_to_file_def Let_def
          split: sum.splits if_splits prod.splits) (metis snd_conv)+
  then show ?thesis
  proof
    assume "df' = df" then show ?thesis .
  next
    assume "\<exists>h c du mu hf w1. get_strip df i ''HTML Code'' = Inr h \<and>
        get_strip df i ''CSS Code'' = Inr c \<and> get_strip df i ''Desktop Reference Image'' = Inr du \<and>
        get_strip df i ''Mobile Reference Image'' = Inr mu \<and> h \<noteq> [] \<and> c \<noteq> [] \<and> du \<noteq> [] \<and> mu \<noteq> [] \<and>
        page_write_ok E \<and> style_write_ok E \<and> df' = snd (row_try L E i hf du mu (w1, df))"
    then obtain h c du mu hf w1 where g: "get_strip df i ''HTML Code'' = Inr h"
        "get_strip df i ''CSS Code'' = Inr c" "get_strip df i ''Desktop Reference Image'' = Inr du"
        "get_strip df i ''Mobile Reference Image'' = Inr mu" "h \<noteq> []" "c \<noteq> []" "du \<noteq> []" "mu \<noteq> []"
        "page_write_ok E" "style_write_ok E" and r: "df' = snd (row_try L E i hf du mu (w1, df))"
      by blast
    from g assms(2) have "\<not> (fetched (desktop_reply E) (desktop_disk_ok E) \<and>
              fetched (mobile_reply E) (mobile_disk_ok E) \<and>
              start_ok (desktop_session E) \<and> quit_ok (desktop_session E) \<and>
              start_ok (mobile_session E) \<and> quit_ok (mobile_session E))"
      by (auto simp: reaches_scoring_def)
    from row_try_unscored[OF this] r show ?thesis by simp
  qed
qed

lemma process_row_skip:
  assumes "get_strip df i ''HTML Code'' = Inr html_code"
      and "get_strip df i ''CSS Code'' = Inr css_code"
      and "get_strip df i ''Desktop Reference Image'' = Inr desktop_url"
      and "get_strip df i ''Mobile Reference Image'' = Inr mobile_url"
      and "html_code = [] \<or> css_code = [] \<or> desktop_url = [] \<or> mobile_url = []"
  shows "process_row L E i (w, df) = Inr (w, df)"
  using assms by (auto simp: process_row_def)

lemma process_row_frame:
  assumes "process_row L E i (w, df) = Inr (w', df')"
  shows "columns df' = columns df \<and> length (cells df') = length (cells df) \<and>
         (\<forall>j. j \<noteq> i \<longrightarrow> cells df' ! j = cells df ! j)"
  using process_row_cases[OF assms] by (auto simp: df_at_other)

lemma get_strip_cong:
  "columns df' = columns df \<Longrightarrow> cells df' ! i = cells df ! i \<Longrightarrow>
     get_strip df' i name = get_strip df i name"
  by (simp add: get_strip_def)

lemma reaches_scoring_cong:
  assumes "columns df' = columns df" "cells df' ! i = cells df ! i"
  shows "reaches_scoring E df' i = reaches_scoring E df i"
proof -
  have h: "\<And>name. get_strip df' i name = get_strip df i name"
    using assms by (rule get_strip_cong)
  show ?thesis
    unfolding reaches_scoring_def h by (rule refl)
qed


text \<open>
  Claim C9, as the code has it.  In a session where the page loads and is measured, the
  window is set to the profile's width and to the measured \<open>scrollHeight\<close>, whatever
  that height is, and the screenshot is taken after that.  A row whose two downloads
  succeed starts a browser at 1920 by 1080 and, when that renderer call returns, a second
  one at 420 by 812, and no other.
\<close>

theorem viewport_profiles:
  "(start_ok s \<and> get_ok s \<and> hide_ok s \<and> scroll_height s = Some total_height \<and> resize_ok s \<longrightarrow>
      trace (snd (capture_screenshot_from_file s h out (vw, vh) w)) =
        trace w @ [ChromeStart vw vh, DriverGet h,
                   ExecuteScript ''document.body.style.overflow = 'hidden';'',
                   ExecuteScript ''return document.body.scrollHeight'',
                   SetWindowSize vw total_height, SaveScreenshot out, DriverQuit]) \<and>
   ((\<exists>dc. desktop_reply E = Response 200 dc) \<and> desktop_disk_ok E \<and>
    (\<exists>mc. mobile_reply E = Response 200 mc) \<and> mobile_disk_ok E \<longrightarrow>
      viewports (drop (length (trace w)) (trace (fst (row_try L E i h du mu (w, df))))) =
        (if start_ok (desktop_session E) \<and> quit_ok (desktop_session E)
         then [(1920, 1080), (420, 812)] else [(1920, 1080)]))"
  using capture_full_trace row_try_viewports by blast

section \<open>The loop over the rows\<close>

lemma iterrows_frame:
  "iterrows L E js (w, df) = Inr (w', df') \<Longrightarrow>
     columns df' = columns df \<and> length (cells df') = length (cells df) \<and>
     (\<forall>j. j \<notin> set js \<longrightarrow> cells df' ! j = cells df ! j)"
proof (induction js arbitrary: w df)
  case Nil
  then show ?case by simp
next
  case (Cons i js)
  from Cons.prems obtain w1 df1 where
    s: "process_row L (E i) i (w, df) = Inr (w1, df1)" and r: "iterrows L E js (w1, df1) = Inr (w', df')"
    by (auto split: sum.splits)
  from process_row_frame[OF s] Cons.IH[OF r] show ?case by auto
qed

lemma iterrows_row:
  "iterrows L E js (w, df) = Inr (w', df') \<Longrightarrow> distinct js \<Longrightarrow> i \<in> set js \<Longrightarrow>
     \<exists>w1 df1 w2 df2. process_row L (E i) i (w1, df1) = Inr (w2, df2) \<and>
        columns df1 = columns df \<and> length (cells df1) = length (cells df) \<and>
        cells df1 ! i = cells df ! i \<and> cells df' ! i = cells df2 ! i"
proof (induction js arbitrary: w df)
  case Nil
  then show ?case by simp
next
  case (Cons j js)
  from Cons.prems obtain w1 df1 where
    s: "process_row L (E j) j (w, df) = Inr (w1, df1)" and r: "iterrows L E js (w1, df1) = Inr (w', df')"
    by (auto split: sum.splits)
  show ?case
  proof (cases "i = j")
    case True
    with Cons.prems have "i \<notin> set js" by simp
    with iterrows_frame[OF r] have "cells df' ! i = cells df1 ! i" by simp
    with s True show ?thesis by blast
  next
    case False
    with Cons.prems have "i \<in> set js" "distinct js" by auto
    from Cons.IH[OF r this(2) this(1)] obtain wa dfa wb dfb where
      "process_row L (E i) i (wa, dfa) = Inr (wb, dfb)" "columns dfa = columns df1"
      "length (cells dfa) = length (cells df1)"
      "cells dfa ! i = cells df1 ! i" "cells df' ! i = cells dfb ! i" by blast
    moreover from process_row_frame[OF s] False
    have "columns df1 = columns df" "cells df1 ! i = cells df ! i" "length (cells df1) = length (cells df)" by auto
    ultimately show ?thesis by (metis (no_types))
  qed
qed

lemma match_columns_length: "length (cells (match_columns df0)) = length (cells df0)"
  by (simp add: match_columns_def ensure_column_def add_column_def)

lemma match_columns_present:
  "''Desktop Match %'' \<in> set (columns df0) \<Longrightarrow> ''Mobile Match %'' \<in> set (columns df0) \<Longrightarrow>
     match_columns df0 = df0"
  by (simp add: match_columns_def ensure_column_def)

lemma match_columns_fresh:
  "''Desktop Match %'' \<notin> set (columns df0) \<Longrightarrow> ''Mobile Match %'' \<notin> set (columns df0) \<Longrightarrow>
     i < length (cells df0) \<Longrightarrow>
     cells (match_columns df0) ! i = cells df0 ! i @ [Absent, Absent] \<and>
     columns (match_columns df0) = columns df0 @ [''Desktop Match %'', ''Mobile Match %'']"
  by (simp add: match_columns_def ensure_column_def add_column_def)

lemma sheet_result:
  assumes "process_google_sheet L E path df0 w = Inr (w', df')"
  shows "\<exists>w1. iterrows L (row_envs E) [0 ..< length (cells df0)] (w, match_columns df0) = Inr (w1, df') \<and>
          to_excel_ok E \<and> excel w' = Some (path, df') \<and>
          worksheet w' = (if update_ok E then Some (map Text (columns df') # cells df') else worksheet w1)"
proof (cases "iterrows L (row_envs E) [0 ..< length (cells df0)] (w, match_columns df0)")
  case (Inl e)
  with assms show ?thesis
    by (simp add: process_google_sheet_def match_columns_length)
next
  case (Inr s)
  obtain w1 df1 where s: "s = (w1, df1)" by (cases s)
  from assms Inr s have ok: "to_excel_ok E"
    by (simp add: process_google_sheet_def match_columns_length
          Let_def split: if_splits)
  show ?thesis
  proof (cases "update_ok E")
    case True
    with assms Inr s ok show ?thesis
      by (auto simp: process_google_sheet_def match_columns_length
          Let_def log_def)
  next
    case False
    with assms Inr s ok show ?thesis
      by (auto simp: process_google_sheet_def match_columns_length
          Let_def log_def)
  qed
qed

lemma sheet_row:
  assumes "process_google_sheet L E path df0 w = Inr (w', df')" "i < length (cells df0)"
  shows "columns df' = columns (match_columns df0) \<and> length (cells df') = length (cells df0) \<and>
     (\<exists>w1 df1 w2 df2. process_row L (row_envs E i) i (w1, df1) = Inr (w2, df2) \<and>
        columns df1 = columns (match_columns df0) \<and> length (cells df1) = length (cells df0) \<and>
        cells df1 ! i = cells (match_columns df0) ! i \<and> cells df' ! i = cells df2 ! i)"
proof -
  from sheet_result[OF assms(1)] obtain w1 where
    it: "iterrows L (row_envs E) [0 ..< length (cells df0)] (w, match_columns df0) = Inr (w1, df')"
    by blast
  have d: "distinct [0 ..< length (cells df0)]" and m: "i \<in> set [0 ..< length (cells df0)]"
    using assms(2) by simp_all
  from iterrows_row[OF it d m] iterrows_frame[OF it] show ?thesis
    by (simp add: match_columns_length)
qed

lemma sheet_row_unscored:
  assumes "process_google_sheet L E path df0 w = Inr (w', df')" "i < length (cells df0)"
      and "\<not> reaches_scoring (row_envs E i) (match_columns df0) i"
  shows "cells df' ! i = cells (match_columns df0) ! i"
proof -
  from sheet_row[OF assms(1,2)] obtain w1 df1 w2 df2 where
    p: "process_row L (row_envs E i) i (w1, df1) = Inr (w2, df2)"
    and c: "columns df1 = columns (match_columns df0)"
       "cells df1 ! i = cells (match_columns df0) ! i" "cells df' ! i = cells df2 ! i"
    by blast
  from reaches_scoring_cong[OF c(1,2)] assms(3)
  have "\<not> reaches_scoring (row_envs E i) df1 i" by simp
  from process_row_unscored[OF p this] c show ?thesis by simp
qed


lemma net_fail_not_fetched: "net_fail reply \<Longrightarrow> \<not> fetched reply disk_ok"
  by (simp add: net_fail_def fetched_def split: fetch.splits)

lemma process_row_returns:
  assumes "get_strip df i ''HTML Code'' = Inr html_code"
      and "get_strip df i ''CSS Code'' = Inr css_code"
      and "get_strip df i ''Desktop Reference Image'' = Inr desktop_url"
      and "get_strip df i ''Mobile Reference Image'' = Inr mobile_url"
      and "page_write_ok E" and "style_write_ok E"
  shows "\<exists>s'. process_row L E i (w, df) = Inr s'"
  using assms by (simp add: process_row_def save_code_to_file_def Let_def)

lemma iterrows_returns:
  assumes "distinct js"
      and "\<forall>i \<in> set js.
             (\<exists>s. get_strip df i ''HTML Code'' = Inr s) \<and>
             (\<exists>s. get_strip df i ''CSS Code'' = Inr s) \<and>
             (\<exists>s. get_strip df i ''Desktop Reference Image'' = Inr s) \<and>
             (\<exists>s. get_strip df i ''Mobile Reference Image'' = Inr s) \<and>
             page_write_ok (E i) \<and> style_write_ok (E i)"
  shows "\<exists>s'. iterrows L E js (w, df) = Inr s'"
  using assms
proof (induction js arbitrary: w df)
  case Nil
  then show ?case by simp
next
  case (Cons j js)
  from Cons.prems(2) obtain h c d m where g: "get_strip df j ''HTML Code'' = Inr h"
      "get_strip df j ''CSS Code'' = Inr c" "get_strip df j ''Desktop Reference Image'' = Inr d"
      "get_strip df j ''Mobile Reference Image'' = Inr m"
      "page_write_ok (E j)" "style_write_ok (E j)"
    by auto
  from process_row_returns[OF g] obtain w1 df1 where
    p: "process_row L (E j) j (w, df) = Inr (w1, df1)" by (metis surj_pair)
  from process_row_frame[OF p] have f: "columns df1 = columns df"
      "\<And>i. i \<noteq> j \<Longrightarrow> cells df1 ! i = cells df ! i" by auto
  have same: "get_strip df1 i name = get_strip df i name" if "i \<in> set js" for i name
  proof -
    from that Cons.prems(1) have "i \<noteq> j" by auto
    with f show ?thesis by (intro get_strip_cong) simp_all
  qed
  have "\<forall>i \<in> set js.
             (\<exists>s. get_strip df1 i ''HTML Code'' = Inr s) \<and>
             (\<exists>s. get_strip df1 i ''CSS Code'' = Inr s) \<and>
             (\<exists>s. get_strip df1 i ''Desktop Reference Image'' = Inr s) \<and>
             (\<exists>s. get_strip df1 i ''Mobile Reference Image'' = Inr s) \<and>
             page_write_ok (E i) \<and> style_write_ok (E i)"
    using Cons.prems(2) same by simp
  moreover from Cons.prems(1) have "distinct js" by simp
  ultimately obtain s' where "iterrows L E js (w1, df1) = Inr s'"
    using Cons.IH by blast
  with p show ?case by simp
qed

text \<open>
  Where every row's four input cells are strings, the page files can be written and the
  export succeeds, the run returns a table with the input's rows, one for one.
\<close>

lemma text_rows_complete:
  assumes "\<forall>i \<in> set [0 ..< length (cells df0)].
             (\<exists>s. get_strip (match_columns df0) i ''HTML Code'' = Inr s) \<and>
             (\<exists>s. get_strip (match_columns df0) i ''CSS Code'' = Inr s) \<and>
             (\<exists>s. get_strip (match_columns df0) i ''Desktop Reference Image'' = Inr s) \<and>
             (\<exists>s. get_strip (match_columns df0) i ''Mobile Reference Image'' = Inr s) \<and>
             page_write_ok (row_envs E i) \<and> style_write_ok (row_envs E i)"
      and "to_excel_ok E"
  shows "\<exists>w' df'. process_google_sheet L E path df0 w = Inr (w', df') \<and>
           columns df' = columns (match_columns df0) \<and>
           length (cells df') = length (cells df0)"
proof -
  have "distinct [0 ..< length (cells df0)]" by simp
  from iterrows_returns[OF this assms(1), of L w] obtain w1 df1 where
    it: "iterrows L (row_envs E) [0 ..< length (cells df0)] (w, match_columns df0) = Inr (w1, df1)"
    by (metis surj_pair)
  from iterrows_frame[OF it] have "columns df1 = columns (match_columns df0)"
      "length (cells df1) = length (cells df0)"
    by (simp_all add: match_columns_length)
  with it assms(2) show ?thesis
    by (simp add: process_google_sheet_def match_columns_length Let_def)
qed

text \<open>
  Claim C5, as the code has it.  A row whose four input cells are strings, one of them
  empty after \<open>strip\<close>, is left by the loop body with the world and the table as they
  were: no file is written, nothing is fetched, no browser starts.  In the table a run
  returns, that row is the row the run started from: its two match cells are absent when
  the columns were missing from the input, and are the input's own cells when the input
  had the columns.
\<close>

theorem invalid_row_skipped:
  assumes "get_strip (match_columns df0) i ''HTML Code'' = Inr html_code"
      and "get_strip (match_columns df0) i ''CSS Code'' = Inr css_code"
      and "get_strip (match_columns df0) i ''Desktop Reference Image'' = Inr desktop_url"
      and "get_strip (match_columns df0) i ''Mobile Reference Image'' = Inr mobile_url"
      and "html_code = [] \<or> css_code = [] \<or> desktop_url = [] \<or> mobile_url = []"
      and "i < length (cells df0)"
  shows "(\<forall>L E w df. columns df = columns (match_columns df0) \<and>
              cells df ! i = cells (match_columns df0) ! i \<longrightarrow>
              process_row L E i (w, df) = Inr (w, df)) \<and>
         (\<forall>L E path w w' df'. process_google_sheet L E path df0 w = Inr (w', df') \<longrightarrow>
              cells df' ! i = cells (match_columns df0) ! i) \<and>
         (''Desktop Match %'' \<notin> set (columns df0) \<and> ''Mobile Match %'' \<notin> set (columns df0) \<longrightarrow>
              cells (match_columns df0) ! i = cells df0 ! i @ [Absent, Absent]) \<and>
         (''Desktop Match %'' \<in> set (columns df0) \<and> ''Mobile Match %'' \<in> set (columns df0) \<longrightarrow>
              cells (match_columns df0) ! i = cells df0 ! i)"
proof -
  have skip: "process_row L E i (w, df) = Inr (w, df)"
    if "columns df = columns (match_columns df0)" "cells df ! i = cells (match_columns df0) ! i"
    for L E w df
  proof -
    have "\<And>name. get_strip df i name = get_strip (match_columns df0) i name"
      using that by (rule get_strip_cong)
    with assms(1-5) show ?thesis by (intro process_row_skip) simp_all
  qed
  have run: "cells df' ! i = cells (match_columns df0) ! i"
    if "process_google_sheet L E path df0 w = Inr (w', df')" for L E path w w' df'
  proof -
    from sheet_row[OF that assms(6)] obtain w1 df1 w2 df2 where
      p: "process_row L (row_envs E i) i (w1, df1) = Inr (w2, df2)"
      and c: "columns df1 = columns (match_columns df0)"
         "cells df1 ! i = cells (match_columns df0) ! i" "cells df' ! i = cells df2 ! i"
      by blast
    from skip[OF c(1,2)] p have "df2 = df1" by simp
    with c show ?thesis by simp
  qed
  from skip run match_columns_fresh[of df0 i] match_columns_present[of df0] assms(6)
  show ?thesis by (intro conjI allI impI) auto
qed

text \<open>
  Claim C2, as the code has it.  For a row that passed validation and whose page was
  written: when the desktop fetch fails (an exception or a status other than 200) the
  row is left as it was, and the mobile image is not fetched; when the desktop fetch
  succeeds and the mobile fetch fails the row is left as it was too; in neither case a
  browser starts.  In the table a run returns, a row with a failed fetch is the row the
  run started from, for both of its match cells.
\<close>

theorem fetch_failure_skips_row:
  assumes "get_strip df i ''HTML Code'' = Inr html_code"
      and "get_strip df i ''CSS Code'' = Inr css_code"
      and "get_strip df i ''Desktop Reference Image'' = Inr desktop_url"
      and "get_strip df i ''Mobile Reference Image'' = Inr mobile_url"
      and "html_code \<noteq> []" and "css_code \<noteq> []" and "desktop_url \<noteq> []" and "mobile_url \<noteq> []"
      and "page_write_ok E" and "style_write_ok E"
  shows "(net_fail (desktop_reply E) \<longrightarrow>
            (\<exists>w'. process_row L E i (w, df) = Inr (w', df) \<and>
                  trace w' = trace w @ [FileWrite (html_path i), FileWrite (css_path i),
                                        HttpGet desktop_url])) \<and>
         ((\<exists>c. desktop_reply E = Response 200 c) \<and> desktop_disk_ok E \<and> net_fail (mobile_reply E) \<longrightarrow>
            (\<exists>w'. process_row L E i (w, df) = Inr (w', df) \<and>
                  trace w' = trace w @ [FileWrite (html_path i), FileWrite (css_path i),
                                        HttpGet desktop_url,
                                        FileWrite (desktop_ref_image_path i),
                                        HttpGet mobile_url])) \<and>
         (\<forall>Es path df0 w0 w' df'.
            process_google_sheet L Es path df0 w0 = Inr (w', df') \<and> i < length (cells df0) \<and>
            (net_fail (desktop_reply (row_envs Es i)) \<or> net_fail (mobile_reply (row_envs Es i))) \<longrightarrow>
            cells df' ! i = cells (match_columns df0) ! i)"
proof (intro conjI)
  show "net_fail (desktop_reply E) \<longrightarrow>
            (\<exists>w'. process_row L E i (w, df) = Inr (w', df) \<and>
                  trace w' = trace w @ [FileWrite (html_path i), FileWrite (css_path i),
                                        HttpGet desktop_url])"
    using assms
    by (auto simp: process_row_def save_code_to_file_def row_try_def download_image_def
        net_fail_def write_file_def log_def Let_def split: fetch.splits)
  show "(\<exists>c. desktop_reply E = Response 200 c) \<and> desktop_disk_ok E \<and> net_fail (mobile_reply E) \<longrightarrow>
            (\<exists>w'. process_row L E i (w, df) = Inr (w', df) \<and>
                  trace w' = trace w @ [FileWrite (html_path i), FileWrite (css_path i),
                                        HttpGet desktop_url,
                                        FileWrite (desktop_ref_image_path i),
                                        HttpGet mobile_url])"
    using assms
    by (auto simp: process_row_def save_code_to_file_def row_try_def download_image_def
        net_fail_def write_file_def log_def Let_def split: fetch.splits)
  show "\<forall>Es path df0 w0 w' df'.
            process_google_sheet L Es path df0 w0 = Inr (w', df') \<and> i < length (cells df0) \<and>
            (net_fail (desktop_reply (row_envs Es i)) \<or> net_fail (mobile_reply (row_envs Es i))) \<longrightarrow>
            cells df' ! i = cells (match_columns df0) ! i"
  proof (intro allI impI)
    fix Es path df0 w0 w' df'
    assume a: "process_google_sheet L Es path df0 w0 = Inr (w', df') \<and> i < length (cells df0) \<and>
            (net_fail (desktop_reply (row_envs Es i)) \<or> net_fail (mobile_reply (row_envs Es i)))"
    then have "\<not> reaches_scoring (row_envs Es i) (match_columns df0) i"
      using net_fail_not_fetched
      by (auto simp: reaches_scoring_def split: sum.splits)
    with a sheet_row_unscored show "cells df' ! i = cells (match_columns df0) ! i" by blast
  qed
qed


text \<open>
  Claim C8, as the code has it.  After the loop has finished: a failed export makes
  \<open>process_google_sheet\<close> raise and the page shows the error; a failed update of the
  sheet is caught, the sheet keeps what it had, the export is still written and the page
  shows success.
\<close>

theorem sink_failures:
  assumes "iterrows L (row_envs E) [0 ..< length (cells df0)] (w, match_columns df0) = Inr (w1, df1)"
      and "sheet_url \<noteq> []"
  shows "(\<not> to_excel_ok E \<longrightarrow>
            process_google_sheet L E path df0 w = Inl OSError \<and>
            process_sheet_button L E sheet_url path df0 w = ErrorOccurred OSError) \<and>
         (to_excel_ok E \<and> \<not> update_ok E \<longrightarrow>
            (\<exists>w'. process_google_sheet L E path df0 w = Inr (w', df1) \<and>
                  worksheet w' = worksheet w1 \<and> excel w' = Some (path, df1) \<and>
                  trace w' = trace w1 @ [WorksheetUpdate, ToExcel path]) \<and>
            process_sheet_button L E sheet_url path df0 w = Success)"
  using assms
  by (auto simp: process_google_sheet_def process_sheet_button_def match_columns_length
        Let_def log_def)

section \<open>Runs on concrete inputs\<close>

lemma str_nat_0: "str_nat 0 = ''0''" by code_simp

lemmas program_defs =
  process_google_sheet_def process_row_def row_try_def save_code_to_file_def
  download_image_def capture_screenshot_from_file_def capture_try_def pixel_match_def
  imread_def resize_def cvtColor_BGR2GRAY_def structural_similarity_def
  get_strip_def cell_strip_def row_get_def ensure_column_def add_column_def df_at_def set_cell_def
  write_file_def log_def html_path_def css_path_def desktop_screenshot_def mobile_screenshot_def
  desktop_ref_image_path_def mobile_ref_image_path_def path_join_def TEMP_DIR_def
  match_columns_def result_cells_def

lemmas fixture_defs =
  stub_lib_def good_session_def good_row_def good_env_def empty_world_def input_columns_def
  hello_row_def hello_table_def flaky_env_def mobile_404_env_def blank_row_def blank_table_def
  rerun_table_def

lemma strip_samples [simp]:
  "strip ''<div>Hello</div>'' = ''<div>Hello</div>''"
  "strip ''div{color:red}'' = ''div{color:red}''"
  "strip ''http://refs/desktop.png'' = ''http://refs/desktop.png''"
  "strip ''http://refs/mobile.png'' = ''http://refs/mobile.png''"
  "strip ''   '' = []"
  by code_simp+

lemma strip_p1 [simp]: "strip ''<p>1</p>'' = ''<p>1</p>''" by code_simp

lemma np_round_samples [simp]:
  "np_round (\<lambda>x. x) 100 2 = 100" "np_round (\<lambda>x. x) 50 2 = 50"
  using rint_of_int[of 10000] rint_of_int[of 5000] by (simp_all add: np_round_def)

theorem pixel_match_contract_witness:
  "imread stub_lib two_files ''none.png'' = None \<and>
   pixel_match stub_lib two_files ''ref.png'' ''none.png'' = Inr 0 \<and>
   imread stub_lib two_files ''ref.png'' = Some flat_image \<and>
   map_option height (imread stub_lib two_files ''shot.png'') = Some 3 \<and>
   pixel_match stub_lib two_files ''ref.png'' ''shot.png'' = Inr 50"
proof -
  have none: "imread stub_lib two_files ''none.png'' = None"
    by code_simp
  have ref: "imread stub_lib two_files ''ref.png'' = Some flat_image"
    by code_simp
  have "imread stub_lib two_files ''shot.png'' \<noteq> None"
    by code_simp
  then obtain t where shot: "imread stub_lib two_files ''shot.png'' = Some t"
    by auto
  have h: "map_option height (imread stub_lib two_files ''shot.png'') = Some 3"
    by code_simp
  have big: "7 \<le> height flat_image \<and> 7 \<le> width flat_image"
    by (simp add: flat_image_def)
  have "ssim_kernel stub_lib (cvtColor_BGR2GRAY stub_lib flat_image)
             (cvtColor_BGR2GRAY stub_lib
                (resize stub_lib (the (imread stub_lib two_files ''shot.png''))
                   (width flat_image, height flat_image)))
           = 1 / 2"
    by code_simp
  with shot have k: "ssim_kernel stub_lib (cvtColor_BGR2GRAY stub_lib flat_image)
             (cvtColor_BGR2GRAY stub_lib (resize stub_lib t (width flat_image, height flat_image)))
           = 1 / 2"
    by simp
  have r: "np_round (fl stub_lib) (fl stub_lib (1 / 2 * 100)) 2 = 50"
    using rint_of_int [of 5000] by (simp add: np_round_def stub_lib_def)
  from pixel_match_contract [of stub_lib two_files "''ref.png''" "''none.png''"] none
  have zero: "pixel_match stub_lib two_files ''ref.png'' ''none.png'' = Inr 0"
    by blast
  from pixel_match_contract [of stub_lib two_files "''ref.png''" "''shot.png''"] ref shot big
  have "pixel_match stub_lib two_files ''ref.png'' ''shot.png'' =
           Inr (np_round (fl stub_lib)
                  (fl stub_lib (ssim_kernel stub_lib (cvtColor_BGR2GRAY stub_lib flat_image)
                     (cvtColor_BGR2GRAY stub_lib
                        (resize stub_lib t (width flat_image, height flat_image))) * 100)) 2)"
    by blast
  then have scored: "pixel_match stub_lib two_files ''ref.png'' ''shot.png'' = Inr 50"
    unfolding k r .
  from none zero ref h scored show ?thesis
    by simp
qed

text \<open>
  Claim C1 as stated fails for two readable images when the reference is 2 by 2 pixels:
  no percentage is returned, the call raises.
\<close>

theorem pixel_match_small_counterexample:
  "map_option height (imread stub_lib small_files ''ref.png'') = Some 2 \<and>
   map_option height (imread stub_lib small_files ''shot.png'') = Some 8 \<and>
   pixel_match stub_lib small_files ''ref.png'' ''shot.png'' = Inl ValueError"
  by (simp add: small_files_def imread_def stub_lib_def pixel_match_def resize_def
        cvtColor_BGR2GRAY_def structural_similarity_def Let_def)

theorem pixel_match_pure_witness:
  "imread stub_lib copy_files ''ref.png'' = Some flat_image \<and>
   imread stub_lib copy_files ''copy.png'' = Some flat_image \<and>
   pixel_match stub_lib copy_files ''ref.png'' ''copy.png'' = Inr 100"
proof -
  have r: "imread stub_lib copy_files ''ref.png'' = Some flat_image"
    by code_simp
  have c: "imread stub_lib copy_files ''copy.png'' = Some flat_image"
    by code_simp
  have d: "7 \<le> height flat_image" "7 \<le> width flat_image"
    by (simp_all add: flat_image_def)
  have i: "interp stub_lib flat_image (width flat_image) (height flat_image) = bgr flat_image"
    by code_simp
  have k: "ssim_kernel stub_lib (cvtColor_BGR2GRAY stub_lib flat_image)
             (cvtColor_BGR2GRAY stub_lib flat_image) = 1"
    by (simp add: stub_lib_def)
  have f: "fl stub_lib 100 = 100" "fl stub_lib 10000 = 10000"
    by (simp_all add: stub_lib_def)
  from pixel_match_pure [of stub_lib _ _ _ _ _ _ copy_files "''ref.png''" flat_image "''copy.png''"]
    r c d i k f
  show ?thesis by blast
qed

text \<open>
  Claim C6 as stated fails for a readable image of one pixel: the similarity routine
  rejects images with a side under 7 pixels, and \<open>pixel_match\<close> raises.
\<close>

theorem self_comparison_counterexample:
  "map_option height (imread stub_lib tiny_files ''tiny.png'') = Some 1 \<and>
   pixel_match stub_lib tiny_files ''tiny.png'' ''tiny.png'' = Inl ValueError"
  by (simp add: tiny_files_def imread_def stub_lib_def pixel_match_def resize_def
        cvtColor_BGR2GRAY_def structural_similarity_def Let_def)

theorem browser_released_witness:
  "browsers (snd (capture_screenshot_from_file (good_session\<lparr>get_ok := False\<rparr>)
       ''page.html'' ''shot.png'' (1920, 1080) empty_world)) = 0 \<and>
   trace (snd (capture_screenshot_from_file (good_session\<lparr>get_ok := False\<rparr>)
       ''page.html'' ''shot.png'' (1920, 1080) empty_world))
     = [ChromeStart 1920 1080, DriverGet ''page.html'', DriverQuit]"
  using browser_released [of "good_session\<lparr>get_ok := False\<rparr>" "''page.html''" "''shot.png''"
      1920 1080 empty_world]
  by (simp add: capture_screenshot_from_file_def capture_try_def good_session_def
        empty_world_def log_def Let_def)

theorem viewport_profiles_witness:
  "trace (snd (capture_screenshot_from_file tall_session ''page.html'' ''shot.png''
                 (1920, 1080) empty_world)) =
     [ChromeStart 1920 1080, DriverGet ''page.html'',
      ExecuteScript ''document.body.style.overflow = 'hidden';'',
      ExecuteScript ''return document.body.scrollHeight'',
      SetWindowSize 1920 2400, SaveScreenshot ''shot.png'', DriverQuit]"
proof -
  have "start_ok tall_session \<and> get_ok tall_session \<and> hide_ok tall_session \<and>
        scroll_height tall_session = Some 2400 \<and> resize_ok tall_session"
    by (simp add: tall_session_def good_session_def)
  with viewport_profiles [of tall_session 2400 "''page.html''" "''shot.png''" 1920 1080 empty_world]
  show ?thesis by (simp add: empty_world_def)
qed

text \<open>
  Claim C9 as stated fails: the page measures 34 pixels, and the height used for the
  capture is 34, below the profile's 1080.
\<close>

theorem viewport_height_counterexample:
  "scroll_height good_session = Some 34 \<and> (34::nat) < 1080 \<and>
   trace (snd (capture_screenshot_from_file good_session ''page.html'' ''shot.png''
                 (1920, 1080) empty_world)) =
     [ChromeStart 1920 1080, DriverGet ''page.html'',
      ExecuteScript ''document.body.style.overflow = 'hidden';'',
      ExecuteScript ''return document.body.scrollHeight'',
      SetWindowSize 1920 34, SaveScreenshot ''shot.png'', DriverQuit]"
  by (simp add: capture_screenshot_from_file_def capture_try_def good_session_def
        empty_world_def log_def Let_def)



theorem invalid_row_skipped_witness:
  "get_strip (match_columns blank_table) 0 ''HTML Code'' = Inr [] \<and>
   process_row stub_lib good_row 0 (empty_world, match_columns blank_table)
     = Inr (empty_world, match_columns blank_table) \<and>
   cells (match_columns blank_table) ! 0 = blank_row @ [Absent, Absent]"
proof -
  have g: "get_strip (match_columns blank_table) 0 ''HTML Code'' = Inr []"
      "get_strip (match_columns blank_table) 0 ''CSS Code'' = Inr ''div{color:red}''"
      "get_strip (match_columns blank_table) 0 ''Desktop Reference Image'' = Inr ''http://refs/desktop.png''"
      "get_strip (match_columns blank_table) 0 ''Mobile Reference Image'' = Inr ''http://refs/mobile.png''"
    by (simp_all add: program_defs fixture_defs)
  have e: "([]::string) = [] \<or> ''div{color:red}'' = [] \<or> ''http://refs/desktop.png'' = [] \<or>
        ''http://refs/mobile.png'' = []" by simp
  have l: "0 < length (cells blank_table)" by (simp add: blank_table_def)
  have f: "''Desktop Match %'' \<notin> set (columns blank_table) \<and>
           ''Mobile Match %'' \<notin> set (columns blank_table)"
    by (simp add: blank_table_def input_columns_def)
  have c: "cells blank_table ! 0 = blank_row" by (simp add: blank_table_def)
  from invalid_row_skipped [OF g e l] f c g(1) show ?thesis by simp
qed

text \<open>
  Claim C5 as stated fails on a table that already has the two columns: the row with
  blank markup keeps 88 and 90, it is not recorded with absent cells.
\<close>

theorem invalid_row_counterexample:
  "get_strip (match_columns rerun_table) 0 ''HTML Code'' = Inr [] \<and>
   result_cells (process_google_sheet stub_lib good_env ''results.xlsx'' rerun_table empty_world)
     = Some [blank_row @ [Number 88, Number 90]]"
  by (simp add: program_defs fixture_defs str_nat_0 Let_def)

theorem fetch_failure_skips_row_witness:
  "net_fail (mobile_reply (row_envs mobile_404_env 0)) \<and>
   (\<exists>w'. process_row stub_lib (row_envs mobile_404_env 0) 0 (empty_world, match_columns hello_table)
            = Inr (w', match_columns hello_table) \<and>
          trace w' = [FileWrite (html_path 0), FileWrite (css_path 0),
                      HttpGet ''http://refs/desktop.png'',
                      FileWrite (desktop_ref_image_path 0),
                      HttpGet ''http://refs/mobile.png''])"
proof -
  have g: "get_strip (match_columns hello_table) 0 ''HTML Code'' = Inr ''<div>Hello</div>''"
      "get_strip (match_columns hello_table) 0 ''CSS Code'' = Inr ''div{color:red}''"
      "get_strip (match_columns hello_table) 0 ''Desktop Reference Image'' = Inr ''http://refs/desktop.png''"
      "get_strip (match_columns hello_table) 0 ''Mobile Reference Image'' = Inr ''http://refs/mobile.png''"
    by (simp_all add: program_defs fixture_defs)
  have n: "''<div>Hello</div>'' \<noteq> []" "''div{color:red}'' \<noteq> []"
      "''http://refs/desktop.png'' \<noteq> []" "''http://refs/mobile.png'' \<noteq> []"
    by simp_all
  have p: "page_write_ok (row_envs mobile_404_env 0)" "style_write_ok (row_envs mobile_404_env 0)"
    by (simp_all add: fixture_defs)
  have r: "(\<exists>c. desktop_reply (row_envs mobile_404_env 0) = Response 200 c) \<and>
           desktop_disk_ok (row_envs mobile_404_env 0) \<and>
           net_fail (mobile_reply (row_envs mobile_404_env 0))"
    by (simp add: fixture_defs net_fail_def)
  from fetch_failure_skips_row [OF g n p, of stub_lib empty_world] r
  show ?thesis by (simp add: empty_world_def)
qed

text \<open>
  Claim C2 as stated fails: the desktop reference is fetched, the mobile one answers
  404, and the desktop cell stays absent with the mobile one.
\<close>

theorem fetch_failure_counterexample:
  "desktop_reply (row_envs mobile_404_env 0) = Response 200 ''abcdefgh'' \<and>
   mobile_reply (row_envs mobile_404_env 0) = Response 404 '''' \<and>
   result_cells (process_google_sheet stub_lib mobile_404_env ''results.xlsx'' hello_table empty_world)
     = Some [hello_row @ [Absent, Absent]]"
  by (simp add: program_defs fixture_defs str_nat_0 Let_def)


theorem sink_failures_witness:
  "to_excel_ok export_fail_env = False \<and>
   process_google_sheet stub_lib export_fail_env ''results.xlsx'' blank_table empty_world
     = Inl OSError \<and>
   process_sheet_button stub_lib export_fail_env ''https://sheet'' ''results.xlsx''
     blank_table empty_world = ErrorOccurred OSError"
proof -
  have it: "iterrows stub_lib (row_envs export_fail_env) [0 ..< length (cells blank_table)]
          (empty_world, match_columns blank_table) = Inr (empty_world, match_columns blank_table)"
    by (simp add: export_fail_env_def program_defs fixture_defs Let_def)
  have u: "''https://sheet'' \<noteq> []" by simp
  have t: "\<not> to_excel_ok export_fail_env" by (simp add: export_fail_env_def)
  from sink_failures [OF it u, of "''results.xlsx''"] t show ?thesis by simp
qed

text \<open>
  Claim C8 as stated fails: the update of the sheet fails and the run ends in success.
\<close>

theorem sink_failure_counterexample:
  "update_ok sink_fail_env = False \<and>
   process_sheet_button stub_lib sink_fail_env ''https://sheet'' ''results.xlsx''
     hello_table empty_world = Success"
  by (simp add: process_sheet_button_def sink_fail_env_def program_defs fixture_defs
        str_nat_0 Let_def)

text \<open>
  Claim C4 at a table of two rows whose first row has the number 123 in its style cell:
  \<open>.strip()\<close> raises on the number outside the \<open>try\<close>, the run stops there, the second
  row is never processed, and nothing is written back or exported.
\<close>

theorem numeric_cell_aborts_run:
  "process_google_sheet stub_lib good_env ''results.xlsx'' numeric_table empty_world
     = Inl AttributeError \<and>
   process_sheet_button stub_lib good_env ''https://sheet'' ''results.xlsx'' numeric_table empty_world
     = ErrorOccurred AttributeError"
  by (simp add: process_sheet_button_def program_defs fixture_defs numeric_table_def Let_def)

end
